theory Spec2Isabelle
  imports Complex_Main "HOL-Library.Sublist" "HOL-Library.AList"
begin

section \<open>BioLens: rate limiting, model fallback and in-context learning\<close>

text \<open>
  A shallow embedding of \<^verbatim>\<open>src/agents/analysisAgent.py\<close> and
  \<^verbatim>\<open>src/agents/modelManager.py\<close>. The Streamlit session state becomes a record that
  every operation takes and returns; each reading of \<^verbatim>\<open>datetime.now()\<close> is an
  argument of the operation that reads the clock; the provider client is a function
  from the request it receives to the text it returns or the error it raises.
\<close>

subsection \<open>Strings\<close>

text \<open>
  Strings are lists of characters. \<^verbatim>\<open>str.lower()\<close> is modelled on the ASCII letters,
  which is all the indicator vocabulary consists of.
\<close>

definition lower_char :: "char \<Rightarrow> char" where
  "lower_char c =
     (let n = (of_char c :: nat) in if 65 \<le> n \<and> n \<le> 90 then char_of (n + 32) else c)"

definition lower :: "string \<Rightarrow> string" where
  "lower s = map lower_char s"

text \<open>\<^verbatim>\<open>needle in haystack\<close> on strings: a contiguous substring.\<close>

definition str_in :: "string \<Rightarrow> string \<Rightarrow> bool" where
  "str_in needle haystack = sublist needle haystack"

text \<open>\<^verbatim>\<open>s.split(sep)\<close> for a separator of one character; \<open>cur\<close> is the piece being read, reversed.\<close>

fun split_acc :: "char \<Rightarrow> string \<Rightarrow> string \<Rightarrow> string list" where
  "split_acc sep cur [] = [rev cur]"
| "split_acc sep cur (x # xs) =
     (if x = sep then rev cur # split_acc sep [] xs else split_acc sep (x # cur) xs)"

definition split :: "string \<Rightarrow> char \<Rightarrow> string list" where
  "split s sep = split_acc sep [] s"

text \<open>\<^verbatim>\<open>sep.join(items)\<close>.\<close>

fun join :: "string \<Rightarrow> string list \<Rightarrow> string" where
  "join sep [] = []"
| "join sep [x] = x"
| "join sep (x # y # ys) = x @ sep @ join sep (y # ys)"

text \<open>The decimal rendering of an integer, as an f-string writes it.\<close>

fun digits :: "nat \<Rightarrow> string" where
  "digits n =
     (if n < 10 then [''0123456789'' ! n]
      else digits (n div 10) @ [''0123456789'' ! (n mod 10)])"

declare digits.simps [simp del]

definition str_int :: "int \<Rightarrow> string" where
  "str_int i = (if i < 0 then CHR ''-'' # digits (nat (- i)) else digits (nat i))"

subsection \<open>Time\<close>

text \<open>
  A \<^verbatim>\<open>datetime\<close> is its number of microseconds since a fixed origin, and a
  \<^verbatim>\<open>timedelta\<close> a number of microseconds. Python keeps a timedelta normalised as
  days, seconds and microseconds with \<open>0 \<le> seconds < 86400\<close> and
  \<open>0 \<le> microseconds < 1000000\<close>; only \<open>days\<close> carries the sign.
\<close>

type_synonym datetime = int
type_synonym timedelta = int

definition us_per_second :: int where
  "us_per_second = 1000000"

definition us_per_day :: int where
  "us_per_day = 86400 * us_per_second"

definition timedelta_of_days :: "int \<Rightarrow> timedelta" where
  "timedelta_of_days d = d * us_per_day"

definition td_days :: "timedelta \<Rightarrow> int" where
  "td_days t = t div us_per_day"

definition td_seconds :: "timedelta \<Rightarrow> int" where
  "td_seconds t = (t mod us_per_day) div us_per_second"

definition divmod :: "int \<Rightarrow> int \<Rightarrow> int \<times> int" where
  "divmod a b = (a div b, a mod b)"

subsection \<open>Session state\<close>

text \<open>
  The knowledge base is a Python dictionary of dictionaries of lists. Iteration over a
  dictionary follows insertion order, so both levels are association lists:
  \<^const>\<open>map_of\<close> reads a key, and \<^const>\<open>AList.update\<close> overwrites the key in place or
  appends it when it is new.
\<close>

type_synonym profiles = "(string \<times> string list) list"
type_synonym knowledge_base = "(string \<times> profiles) list"

record session_state =
  analysis_count :: int
  last_analysis :: datetime
  analysis_limit :: int
  models_used :: "string \<rightharpoonup> int"
  knowledge_base :: knowledge_base

text \<open>What \<^verbatim>\<open>_init_state\<close> stores in a fresh session.\<close>

definition init_state :: "datetime \<Rightarrow> session_state" where
  "init_state now =
     \<lparr>analysis_count = 0, last_analysis = now, analysis_limit = 15,
      models_used = Map.empty, knowledge_base = []\<rparr>"

text \<open>
  The result dictionary of a generation: \<^verbatim>\<open>{"success": True, "content": c, "model_used": m}\<close>
  or \<^verbatim>\<open>{"success": False, "error": e}\<close>.
\<close>

datatype gen_result = Success string string | Failure string

fun success :: "gen_result \<Rightarrow> bool" where
  "success (Success c m) = True"
| "success (Failure e) = False"

subsection \<open>Rate limiter\<close>

text \<open>
  \<^verbatim>\<open>check_rate_limit\<close> reads the clock at line 47 (\<open>now1\<close>) and, on the reset path,
  again at line 54 (\<open>now2\<close>).
\<close>

definition check_rate_limit ::
  "datetime \<Rightarrow> datetime \<Rightarrow> session_state \<Rightarrow> (bool \<times> string option) \<times> session_state" where
  "check_rate_limit now1 now2 st =
     (let time_until_reset = timedelta_of_days 1 - (now1 - last_analysis st);
          (hours, remainder) = divmod (td_seconds time_until_reset) 3600;
          (minutes, _) = divmod remainder 60
      in if td_days time_until_reset < 0
         then ((True, None), st\<lparr>analysis_count := 0, last_analysis := now2\<rparr>)
         else if analysis_count st \<ge> analysis_limit st
         then ((False,
                Some (''Daily limit reached. Reset in '' @ str_int hours @ ''h ''
                      @ str_int minutes @ ''m'')), st)
         else ((True, None), st))"

text \<open>
  \<^verbatim>\<open>_update_analytics\<close>: \<^verbatim>\<open>result.get("model_used", "unknown")\<close> is the model of a
  success dictionary and the default for a dictionary without that key.
\<close>

fun model_used_or_unknown :: "gen_result \<Rightarrow> string" where
  "model_used_or_unknown (Success c m) = m"
| "model_used_or_unknown (Failure e) = ''unknown''"

definition update_analytics :: "datetime \<Rightarrow> gen_result \<Rightarrow> session_state \<Rightarrow> session_state" where
  "update_analytics now result st =
     (let st1 = st\<lparr>analysis_count := analysis_count st + 1\<rparr>;
          st2 = st1\<lparr>last_analysis := now\<rparr>;
          model_used = model_used_or_unknown result
      in case models_used st2 model_used of
           Some n \<Rightarrow> st2\<lparr>models_used := (models_used st2)(model_used \<mapsto> n + 1)\<rparr>
         | None \<Rightarrow> st2\<lparr>models_used := (models_used st2)(model_used \<mapsto> 1)\<rparr>)"


subsection \<open>Model manager\<close>

datatype model_tier = PRIMARY | SECONDARY | TERTIARY | FALLBACK

record model_config =
  provider :: string
  model :: string
  max_tokens :: int
  temperature :: rat

fun MODEL_CONFIG :: "model_tier \<Rightarrow> model_config" where
  "MODEL_CONFIG PRIMARY =
     \<lparr>provider = ''groq'', model = ''llama-3.3-70b-versatile'',
      max_tokens = 2000, temperature = 7 / 10\<rparr>"
| "MODEL_CONFIG SECONDARY =
     \<lparr>provider = ''groq'', model = ''llama-3-8b-8192'',
      max_tokens = 2000, temperature = 7 / 10\<rparr>"
| "MODEL_CONFIG TERTIARY =
     \<lparr>provider = ''groq'', model = ''mixtral-8x7b-32768'',
      max_tokens = 2000, temperature = 7 / 10\<rparr>"
| "MODEL_CONFIG FALLBACK =
     \<lparr>provider = ''groq'', model = ''gemma-7b-it'',
      max_tokens = 2000, temperature = 7 / 10\<rparr>"

text \<open>
  The report data: a dictionary, of which only the four keys the agent reads are kept
  (\<open>None\<close> is an absent key, and a value is held as the text an f-string renders), or
  a value that is not a dictionary.
\<close>

record report_dict =
  patient_name :: "string option"
  age :: "string option"
  gender :: "string option"
  report :: "string option"

datatype py_data = DictData report_dict | NonDict string

text \<open>
  One call of \<^verbatim>\<open>client.chat.completions.create\<close>. The user message is
  \<^verbatim>\<open>str(data)\<close>; the request holds \<open>data\<close> itself, of which that text is a function.
  A client answers with the content of the first choice (\<open>Inr\<close>) or raises, and
  \<open>Inl\<close> holds the text of the exception.
\<close>

record groq_request =
  req_model :: string
  system_content :: string
  user_data :: py_data
  req_temperature :: rat
  req_max_tokens :: int

type_synonym groq_client = "groq_request \<Rightarrow> string + string"

text \<open>What a generation does besides returning: provider calls and \<^verbatim>\<open>time.sleep\<close>.\<close>

datatype effect = Call groq_request | Sleep nat

fun provider_calls :: "effect list \<Rightarrow> groq_request list" where
  "provider_calls [] = []"
| "provider_calls (Call r # es) = r # provider_calls es"
| "provider_calls (Sleep n # es) = provider_calls es"

text \<open>Lines 99 to 106: the tier an attempt uses.\<close>

definition tier_of_retry :: "int \<Rightarrow> model_tier" where
  "tier_of_retry retry_count =
     (if retry_count = 0 then PRIMARY
      else if retry_count = 1 then SECONDARY
      else if retry_count = 2 then TERTIARY
      else FALLBACK)"

text \<open>Lines 123 to 131: the arguments of \<^verbatim>\<open>client.chat.completions.create\<close>.\<close>

definition completion_request :: "model_config \<Rightarrow> string \<Rightarrow> py_data \<Rightarrow> groq_request" where
  "completion_request model_config system_prompt data =
     \<lparr>req_model = model model_config, system_content = system_prompt,
      user_data = data, req_temperature = temperature model_config,
      req_max_tokens = max_tokens model_config\<rparr>"

function generate_analysis ::
  "(string \<rightharpoonup> groq_client) \<Rightarrow> py_data \<Rightarrow> string \<Rightarrow> int \<Rightarrow> gen_result \<times> effect list" where
  "generate_analysis clients data system_prompt retry_count =
     (if retry_count > 3
      then (Failure ''All models failed after multiple retries'', [])
      else
        let tier = tier_of_retry retry_count;
            model_config = MODEL_CONFIG tier
        in case clients (provider model_config) of
             None \<Rightarrow> generate_analysis clients data system_prompt (retry_count + 1)
           | Some client \<Rightarrow>
               if provider model_config = ''groq''
               then
                 let request = completion_request model_config system_prompt data
                 in case client request of
                      Inr content \<Rightarrow>
                        (Success content (provider model_config @ ''/'' @ model model_config),
                         [Call request])
                    | Inl e \<Rightarrow>
                        let error_message = lower e;
                            slept = (if str_in ''rate limit'' error_message
                                        \<or> str_in ''quota'' error_message
                                     then [Sleep 2] else [])
                        in case generate_analysis clients data system_prompt (retry_count + 1) of
                             (result, effects) \<Rightarrow> (result, Call request # slept @ effects)
               else (Failure ''Analysis failed with all available models'', []))"
  by pat_completeness auto
termination
  by (relation "measure (\<lambda>(clients, data, system_prompt, retry_count). nat (4 - retry_count))")
    auto

declare generate_analysis.simps [simp del]

subsection \<open>Knowledge base\<close>

definition newline :: char where
  "newline = CHR 0x0A"

definition key_indicators :: "string list" where
  "key_indicators =
     [''hemoglobin'', ''glucose'', ''cholesterol'', ''triglycerides'',
      ''hdl'', ''ldl'', ''wbc'', ''rbc'', ''platelet'', ''creatinine'']"

text \<open>\<^verbatim>\<open>data.get(key, default)\<close>.\<close>

fun get_or :: "string option \<Rightarrow> string \<Rightarrow> string" where
  "get_or None d = d"
| "get_or (Some v) d = v"

definition patient_profile_of :: "report_dict \<Rightarrow> string" where
  "patient_profile_of d = get_or (age d) ''unknown'' @ ''-'' @ get_or (gender d) ''unknown''"

text \<open>
  Reading and writing \<^verbatim>\<open>knowledge_base[indicator]\<close> and
  \<^verbatim>\<open>knowledge_base[indicator][profile]\<close>. The code reads them only after it has created
  them, so the empty default for a missing key is never what a read returns there.
\<close>

definition get_profiles :: "knowledge_base \<Rightarrow> string \<Rightarrow> profiles" where
  "get_profiles kb indicator = (case map_of kb indicator of None \<Rightarrow> [] | Some ps \<Rightarrow> ps)"

definition get_insights :: "knowledge_base \<Rightarrow> string \<Rightarrow> string \<Rightarrow> string list" where
  "get_insights kb indicator profile =
     (case map_of (get_profiles kb indicator) profile of None \<Rightarrow> [] | Some xs \<Rightarrow> xs)"

definition set_insights ::
  "knowledge_base \<Rightarrow> string \<Rightarrow> string \<Rightarrow> string list \<Rightarrow> knowledge_base" where
  "set_insights kb indicator profile xs =
     AList.update indicator (AList.update profile xs (get_profiles kb indicator)) kb"

text \<open>The body of the loop of \<^verbatim>\<open>_update_knowledge_base\<close> (lines 145 to 162).\<close>

definition learn_indicator ::
  "string \<Rightarrow> string \<Rightarrow> string \<Rightarrow> string \<Rightarrow> knowledge_base \<Rightarrow> knowledge_base" where
  "learn_indicator report_text patient_profile analysis indicator kb =
     (if str_in indicator report_text then
        if str_in indicator (lower analysis) then
          let kb1 = (if map_of kb indicator = None
                     then AList.update indicator [] kb else kb);
              kb2 = (if map_of (get_profiles kb1 indicator) patient_profile = None
                     then set_insights kb1 indicator patient_profile [] else kb1);
              lines = split analysis newline;
              relevant_lines = filter (\<lambda>l. str_in indicator (lower l)) lines
          in case relevant_lines of
               [] \<Rightarrow> kb2
             | first_line # _ \<Rightarrow>
                 let kb3 = (if length (get_insights kb2 indicator patient_profile) \<ge> 3
                            then set_insights kb2 indicator patient_profile
                                   (tl (get_insights kb2 indicator patient_profile))
                            else kb2)
                 in set_insights kb3 indicator patient_profile
                      (get_insights kb3 indicator patient_profile @ [first_line])
        else kb
      else kb)"

definition update_knowledge_base :: "py_data \<Rightarrow> string \<Rightarrow> knowledge_base \<Rightarrow> knowledge_base" where
  "update_knowledge_base data analysis kb =
     (case data of
        NonDict _ \<Rightarrow> kb
      | DictData d \<Rightarrow>
          (case report d of
             None \<Rightarrow> kb
           | Some r \<Rightarrow>
               let report_text = lower r;
                   patient_profile = patient_profile_of d
               in fold (learn_indicator report_text patient_profile analysis)
                    key_indicators kb))"

text \<open>The knowledge base after a sequence of updates, each a report and its analysis.\<close>

fun update_all :: "(py_data \<times> string) list \<Rightarrow> knowledge_base \<Rightarrow> knowledge_base" where
  "update_all [] kb = kb"
| "update_all ((data, analysis) # us) kb = update_all us (update_knowledge_base data analysis kb)"

subsection \<open>Prompt composer\<close>

definition bullet :: "string \<Rightarrow> string \<Rightarrow> string \<Rightarrow> string" where
  "bullet indicator label insight = ''- '' @ indicator @ '' ('' @ label @ ''): '' @ insight"

text \<open>
  The list \<^verbatim>\<open>context_items\<close> of \<^verbatim>\<open>_get_knowledge_base_context\<close> (lines 210 to 228):
  the two nested iterations append to it, then it is cut to five items.
\<close>

definition other_profiles_items ::
  "string \<Rightarrow> string \<Rightarrow> profiles \<Rightarrow> string list \<Rightarrow> string list" where
  "other_profiles_items indicator patient_profile profs context_items =
     fold (\<lambda>(profile, insights) items.
             if profile \<noteq> patient_profile
             then fold (\<lambda>insight acc. acc @ [bullet indicator ''other patient profile'' insight])
                    insights items
             else items)
       profs context_items"

definition indicator_items ::
  "string \<Rightarrow> string \<Rightarrow> string \<times> profiles \<Rightarrow> string list \<Rightarrow> string list" where
  "indicator_items report_text patient_profile entry context_items =
     (case entry of (indicator, profs) \<Rightarrow>
        if str_in indicator report_text then
          let items1 = (case map_of profs patient_profile of
                          Some insights \<Rightarrow>
                            fold (\<lambda>insight acc.
                                    acc @ [bullet indicator ''similar patient profile'' insight])
                              insights context_items
                        | None \<Rightarrow> context_items)
          in other_profiles_items indicator patient_profile profs items1
        else context_items)"

definition kb_context_items :: "report_dict \<Rightarrow> knowledge_base \<Rightarrow> string list" where
  "kb_context_items d kb =
     (let report_text = lower (get_or (report d) []);
          patient_profile = patient_profile_of d;
          context_items = fold (indicator_items report_text patient_profile) kb []
      in if length context_items > 5 then take 5 context_items else context_items)"

definition get_knowledge_base_context :: "report_dict \<Rightarrow> knowledge_base \<Rightarrow> string" where
  "get_knowledge_base_context d kb =
     (if kb = [] then []
      else let context_items = kb_context_items d kb
           in if context_items \<noteq> [] then join [newline] context_items else [])"

record message =
  role :: string
  content :: string

text \<open>Lines 253 to 256: a message of more than 200 characters keeps its first 197.\<close>

definition truncate_message :: "string \<Rightarrow> string" where
  "truncate_message msg = (if length msg > 200 then take 197 msg @ ''...'' else msg)"

definition exchange :: "string \<Rightarrow> string \<Rightarrow> string" where
  "exchange user_msg ai_msg = ''User: '' @ user_msg @ [newline] @ ''Assistant: '' @ ai_msg"

text \<open>
  The loop \<^verbatim>\<open>for i in range(len(chat_history) - 1, 0, -2)\<close> from index \<open>i\<close> on, with the
  \<^verbatim>\<open>break\<close> once two exchanges are collected.
\<close>

fun session_loop :: "message list \<Rightarrow> nat \<Rightarrow> string list \<Rightarrow> string list" where
  "session_loop chat_history i context_items =
     (if i > 0 then
        if i \<ge> 1 \<and> role (chat_history ! (i - 1)) = ''user''
             \<and> role (chat_history ! i) = ''assistant''
        then
          let user_msg = truncate_message (content (chat_history ! (i - 1)));
              ai_msg = truncate_message (content (chat_history ! i));
              items = context_items @ [exchange user_msg ai_msg]
          in if length items \<ge> 2 then items else session_loop chat_history (i - 2) items
        else session_loop chat_history (i - 2) context_items
      else context_items)"

declare session_loop.simps [simp del]

definition session_items :: "message list \<Rightarrow> string list" where
  "session_items chat_history = session_loop chat_history (length chat_history - 1) []"

definition get_session_context :: "message list option \<Rightarrow> string" where
  "get_session_context chat_history =
     (case chat_history of
        None \<Rightarrow> []
      | Some h \<Rightarrow>
          if h = [] \<or> length h < 2 then []
          else let context_items = session_items h
               in if context_items \<noteq> []
                  then join [newline, newline] (rev context_items) else [])"

text \<open>Python's truth value of \<^verbatim>\<open>chat_history\<close>: \<^verbatim>\<open>None\<close> and the empty list are false.\<close>

fun truthy :: "message list option \<Rightarrow> bool" where
  "truthy None = False"
| "truthy (Some h) = (h \<noteq> [])"

definition build_enhanced_prompt ::
  "string \<Rightarrow> py_data \<Rightarrow> message list option \<Rightarrow> knowledge_base \<Rightarrow> string" where
  "build_enhanced_prompt system_prompt data chat_history kb =
     (let enhanced_prompt = system_prompt;
          enhanced_prompt =
            (case data of
               DictData d \<Rightarrow>
                 (case report d of
                    Some _ \<Rightarrow>
                      let kb_context = get_knowledge_base_context d kb
                      in if kb_context \<noteq> []
                         then enhanced_prompt @ [newline, newline]
                              @ ''## Relevant Learning From Previous Analyses'' @ [newline]
                              @ kb_context
                         else enhanced_prompt
                  | None \<Rightarrow> enhanced_prompt)
             | NonDict _ \<Rightarrow> enhanced_prompt)
      in if truthy chat_history then
           let session_context = get_session_context chat_history
           in if session_context \<noteq> []
              then enhanced_prompt @ [newline, newline] @ ''## Current Session History''
                   @ [newline] @ session_context
              else enhanced_prompt
         else enhanced_prompt)"

subsection \<open>The analysis agent\<close>

definition preprocess_data :: "py_data \<Rightarrow> py_data" where
  "preprocess_data data =
     (case data of
        DictData d \<Rightarrow>
          DictData \<lparr>patient_name = Some (get_or (patient_name d) []),
                    age = Some (get_or (age d) []),
                    gender = Some (get_or (gender d) []),
                    report = Some (get_or (report d) [])\<rparr>
      | NonDict s \<Rightarrow> NonDict s)"

text \<open>Line 88: the prompt handed to the model manager.\<close>

definition enhanced_prompt_of ::
  "string \<Rightarrow> py_data \<Rightarrow> message list option \<Rightarrow> knowledge_base \<Rightarrow> string" where
  "enhanced_prompt_of system_prompt processed_data chat_history kb =
     (if truthy chat_history
      then build_enhanced_prompt system_prompt processed_data chat_history kb
      else system_prompt)"

text \<open>
  What \<^verbatim>\<open>analyze_report\<close> returns, one constructor for each of its three
  \<^verbatim>\<open>return\<close> statements: the dictionary \<^verbatim>\<open>{"success": False, "error": error_msg}\<close> of
  line 79, the tuple \<^verbatim>\<open>(can_analyze, error_msg)\<close> of line 82, and the result dictionary
  of the model manager of line 98.
\<close>

datatype analyze_return =
  LimitDict "string option"
| CheckTuple bool "string option"
| Generated gen_result

fun is_dict :: "analyze_return \<Rightarrow> bool" where
  "is_dict (LimitDict e) = True"
| "is_dict (CheckTuple b e) = False"
| "is_dict (Generated r) = True"

text \<open>
  \<open>now1\<close> and \<open>now2\<close> are the clock readings of the rate check, \<open>now3\<close> that of
  \<^verbatim>\<open>_update_analytics\<close>.
\<close>

definition analyze_report ::
  "(string \<rightharpoonup> groq_client) \<Rightarrow> datetime \<Rightarrow> datetime \<Rightarrow> datetime \<Rightarrow> py_data \<Rightarrow> string \<Rightarrow> bool
   \<Rightarrow> message list option \<Rightarrow> session_state \<Rightarrow> (analyze_return \<times> effect list) \<times> session_state" where
  "analyze_report clients now1 now2 now3 data system_prompt check_only chat_history st =
     (case check_rate_limit now1 now2 st of
        ((can_analyze, error_msg), st1) \<Rightarrow>
          if \<not> can_analyze then ((LimitDict error_msg, []), st1)
          else if check_only then ((CheckTuple can_analyze error_msg, []), st1)
          else
            let processed_data = preprocess_data data;
                enhanced_prompt =
                  enhanced_prompt_of system_prompt processed_data chat_history
                    (knowledge_base st1)
            in case generate_analysis clients processed_data enhanced_prompt 0 of
                 (result, effects) \<Rightarrow>
                   (case result of
                      Success content_text model_name \<Rightarrow>
                        let st2 = update_analytics now3 result st1;
                            st3 = st2\<lparr>knowledge_base :=
                                    update_knowledge_base processed_data content_text
                                      (knowledge_base st2)\<rparr>
                        in ((Generated result, effects), st3)
                    | Failure e \<Rightarrow> ((Generated result, effects), st1)))"

subsection \<open>Views used to state the properties\<close>

text \<open>
  Lines 158 to 162 seen on the list alone: with no relevant line the list stays; otherwise
  a list of three or more loses its head and the first relevant line goes to the end.
\<close>

definition store_snippet :: "string list \<Rightarrow> string list \<Rightarrow> string list" where
  "store_snippet relevant_lines insights =
     (case relevant_lines of
        [] \<Rightarrow> insights
      | first_line # _ \<Rightarrow>
          (if length insights \<ge> 3 then tl insights else insights) @ [first_line])"

text \<open>
  The rendering of every adjacent pair of the history whose earlier message is the
  user's and whose later one is the assistant's.
\<close>

definition adjacent_exchanges :: "message list \<Rightarrow> string list" where
  "adjacent_exchanges h =
     map (\<lambda>i. exchange (truncate_message (content (h ! (i - 1))))
                         (truncate_message (content (h ! i))))
       (filter (\<lambda>i. role (h ! (i - 1)) = ''user'' \<and> role (h ! i) = ''assistant'')
          [1..<length h])"

text \<open>
  What the body of the outer iteration of \<^verbatim>\<open>_get_knowledge_base_context\<close> (lines 216 to
  224) appends for one entry of the knowledge base: the snippets of the matching
  profile key labelled as similar, then the snippets of the entry's other profile keys,
  in the entry's order, labelled as other.
\<close>

definition indicator_bullets :: "string \<Rightarrow> string \<Rightarrow> profiles \<Rightarrow> string list" where
  "indicator_bullets indicator patient_profile profs =
     map (bullet indicator ''similar patient profile'')
       (case map_of profs patient_profile of Some insights \<Rightarrow> insights | None \<Rightarrow> [])
     @ concat (map (\<lambda>(profile, insights).
                      map (bullet indicator ''other patient profile'') insights)
                 (filter (\<lambda>(profile, insights). profile \<noteq> patient_profile) profs))"

section \<open>Properties\<close>

subsection \<open>Rate limiter\<close>

lemma td_days_neg_iff: "td_days t < 0 \<longleftrightarrow> t < 0"
  by (simp add: td_days_def us_per_day_def us_per_second_def pos_imp_zdiv_neg_iff)

text \<open>
  C2, as the code has it. The window is rolled when the time since
  \<open>last_analysis\<close> is strictly more than 24 hours: \<^verbatim>\<open>time_until_reset.days < 0\<close>
  holds exactly when the remaining time is negative. Then the count becomes 0,
  \<open>last_analysis\<close> becomes the clock reading taken on that path and the answer is
  \<^verbatim>\<open>(True, None)\<close>, whatever the count was and whatever the limit is.
\<close>

theorem check_rate_limit_expired_resets:
  assumes "now1 - last_analysis st > timedelta_of_days 1"
  shows "check_rate_limit now1 now2 st =
           ((True, None), st\<lparr>analysis_count := 0, last_analysis := now2\<rparr>)"
  using assms
  by (simp add: check_rate_limit_def Let_def td_days_neg_iff split: prod.splits)

text \<open>
  A session with 1000 analyses counted, last used at time 0, checked one microsecond
  after the 24 hours have passed.
\<close>

theorem check_rate_limit_expired_resets_witness:
  "86400000001 - last_analysis \<lparr>analysis_count = 1000, last_analysis = 0, analysis_limit = 15,
        models_used = Map.empty, knowledge_base = []\<rparr> > timedelta_of_days 1
   \<and> check_rate_limit 86400000001 86400000007
        \<lparr>analysis_count = 1000, last_analysis = 0, analysis_limit = 15,
         models_used = Map.empty, knowledge_base = []\<rparr>
     = ((True, None),
        \<lparr>analysis_count = 0, last_analysis = 86400000007, analysis_limit = 15,
         models_used = Map.empty, knowledge_base = []\<rparr>)"
proof -
  have h: "86400000001 - last_analysis \<lparr>analysis_count = 1000, last_analysis = 0,
        analysis_limit = 15, models_used = Map.empty, knowledge_base = []\<rparr>
      > timedelta_of_days 1"
    by (simp add: timedelta_of_days_def us_per_day_def us_per_second_def)
  show ?thesis
    using h check_rate_limit_expired_resets [OF h, of 86400000007] by simp
qed

text \<open>
  C2 as stated, with \<open>\<ge>\<close>, fails at exactly 24 hours: the remaining time is zero, its
  \<open>days\<close> field is 0, and a session at its limit is refused with the count kept.
\<close>

theorem check_rate_limit_exactly_24h_counterexample:
  "86400000000 - last_analysis \<lparr>analysis_count = 15, last_analysis = 0, analysis_limit = 15,
        models_used = Map.empty, knowledge_base = []\<rparr> \<ge> timedelta_of_days 1
   \<and> check_rate_limit 86400000000 86400000000
        \<lparr>analysis_count = 15, last_analysis = 0, analysis_limit = 15,
         models_used = Map.empty, knowledge_base = []\<rparr>
     = ((False, Some ''Daily limit reached. Reset in 0h 0m''),
        \<lparr>analysis_count = 15, last_analysis = 0, analysis_limit = 15,
         models_used = Map.empty, knowledge_base = []\<rparr>)"
  by (simp add: check_rate_limit_def Let_def td_days_def td_seconds_def
      timedelta_of_days_def us_per_day_def us_per_second_def divmod_def str_int_def
      digits.simps)

text \<open>
  C9. When the count is below the limit and \<open>last_analysis\<close> is at most 24 hours before
  the clock reading, \<^verbatim>\<open>check_rate_limit\<close> answers \<^verbatim>\<open>(True, None)\<close> and returns the
  session state as it was: no field changes.
\<close>

theorem check_rate_limit_allowed_no_change:
  assumes "now1 - last_analysis st \<le> timedelta_of_days 1"
    and "analysis_count st < analysis_limit st"
  shows "check_rate_limit now1 now2 st = ((True, None), st)"
  using assms
  by (simp add: check_rate_limit_def Let_def td_days_neg_iff split: prod.splits)

text \<open>Scenario A of the specification: 14 of 15 used, the last one two hours ago.\<close>

theorem check_rate_limit_allowed_no_change_witness:
  "7200000000 - last_analysis \<lparr>analysis_count = 14, last_analysis = 0, analysis_limit = 15,
        models_used = Map.empty, knowledge_base = []\<rparr> \<le> timedelta_of_days 1
   \<and> analysis_count \<lparr>analysis_count = 14, last_analysis = 0, analysis_limit = 15,
        models_used = Map.empty, knowledge_base = []\<rparr>
     < analysis_limit \<lparr>analysis_count = 14, last_analysis = 0, analysis_limit = 15,
        models_used = Map.empty, knowledge_base = []\<rparr>
   \<and> check_rate_limit 7200000000 7200000003
        \<lparr>analysis_count = 14, last_analysis = 0, analysis_limit = 15,
         models_used = Map.empty, knowledge_base = []\<rparr>
     = ((True, None),
        \<lparr>analysis_count = 14, last_analysis = 0, analysis_limit = 15,
         models_used = Map.empty, knowledge_base = []\<rparr>)"
proof -
  have h1: "7200000000 - last_analysis \<lparr>analysis_count = 14, last_analysis = 0,
        analysis_limit = 15, models_used = Map.empty, knowledge_base = []\<rparr>
      \<le> timedelta_of_days 1"
    by (simp add: timedelta_of_days_def us_per_day_def us_per_second_def)
  have h2: "analysis_count \<lparr>analysis_count = 14, last_analysis = 0, analysis_limit = 15,
        models_used = Map.empty, knowledge_base = []\<rparr>
     < analysis_limit \<lparr>analysis_count = 14, last_analysis = 0, analysis_limit = 15,
        models_used = Map.empty, knowledge_base = []\<rparr>"
    by simp
  show ?thesis
    using h1 h2 check_rate_limit_allowed_no_change [OF h1 h2, of 7200000003] by simp
qed

subsection \<open>Model fallback\<close>

lemma provider_groq: "provider (MODEL_CONFIG t) = ''groq''"
  by (cases t) simp_all

lemma provider_calls_append:
  "provider_calls (xs @ ys) = provider_calls xs @ provider_calls ys"
  by (induction xs rule: provider_calls.induct) simp_all

text \<open>One step of the recursion, for each way an attempt can go.\<close>

lemma generate_exhausted:
  "rc > 3 \<Longrightarrow>
   generate_analysis clients data sp rc
     = (Failure ''All models failed after multiple retries'', [])"
  by (simp add: generate_analysis.simps)

lemma generate_skip:
  "\<not> rc > 3 \<Longrightarrow> clients ''groq'' = None \<Longrightarrow>
   generate_analysis clients data sp rc = generate_analysis clients data sp (rc + 1)"
  by (subst generate_analysis.simps) (simp add: Let_def provider_groq)

lemma generate_answered:
  "\<not> rc > 3 \<Longrightarrow> clients ''groq'' = Some client \<Longrightarrow>
   client (completion_request (MODEL_CONFIG (tier_of_retry rc)) sp data) = Inr c \<Longrightarrow>
   generate_analysis clients data sp rc
     = (Success c (''groq/'' @ model (MODEL_CONFIG (tier_of_retry rc))),
        [Call (completion_request (MODEL_CONFIG (tier_of_retry rc)) sp data)])"
  by (subst generate_analysis.simps) (simp add: Let_def provider_groq)

lemma generate_raised:
  "\<not> rc > 3 \<Longrightarrow> clients ''groq'' = Some client \<Longrightarrow>
   client (completion_request (MODEL_CONFIG (tier_of_retry rc)) sp data) = Inl e \<Longrightarrow>
   generate_analysis clients data sp rc
     = (fst (generate_analysis clients data sp (rc + 1)),
        Call (completion_request (MODEL_CONFIG (tier_of_retry rc)) sp data)
        # (if str_in ''rate limit'' (lower e) \<or> str_in ''quota'' (lower e)
           then [Sleep 2] else [])
        @ snd (generate_analysis clients data sp (rc + 1)))"
  by (subst generate_analysis.simps) (simp add: Let_def provider_groq case_prod_beta)

text \<open>From retry count \<open>rc\<close> on, at most \<open>4 - rc\<close> provider calls are made.\<close>

lemma generate_calls_le:
  "length (provider_calls (snd (generate_analysis clients data sp rc))) \<le> nat (4 - rc)"
proof (induction "nat (4 - rc)" arbitrary: rc)
  case 0
  then have "rc > 3" by simp
  then show ?case by (simp add: generate_exhausted)
next
  case (Suc n)
  then have small: "\<not> rc > 3" and n: "n = nat (4 - (rc + 1))" by simp_all
  note IH = Suc.hyps(1) [OF n]
  show ?case
  proof (cases "clients ''groq''")
    case None
    with small IH show ?thesis by (simp add: generate_skip)
  next
    case (Some client)
    show ?thesis
    proof (cases "client (completion_request (MODEL_CONFIG (tier_of_retry rc)) sp data)")
      case (Inl e)
      with small Some IH show ?thesis
        by (auto simp add: generate_raised provider_calls_append)
    next
      case (Inr c)
      with small Some show ?thesis by (simp add: generate_answered)
    qed
  qed
qed

lemma generate_without_client:
  "clients ''groq'' = None \<Longrightarrow>
   generate_analysis clients data sp rc
     = (Failure ''All models failed after multiple retries'', [])"
proof (induction "nat (4 - rc)" arbitrary: rc)
  case 0
  then have "rc > 3" by simp
  then show ?case by (simp add: generate_exhausted)
next
  case (Suc n)
  then have small: "\<not> rc > 3" and n: "n = nat (4 - (rc + 1))" by simp_all
  from Suc.hyps(1) [OF n Suc.prems] small Suc.prems show ?case
    by (simp add: generate_skip)
qed

text \<open>When every call that was made raised, the calls are those of the tiers from \<open>rc\<close> to 3.\<close>

lemma generate_all_raised:
  "clients ''groq'' = Some client \<Longrightarrow>
   \<forall>r \<in> set (provider_calls (snd (generate_analysis clients data sp rc))). isl (client r) \<Longrightarrow>
   fst (generate_analysis clients data sp rc)
     = Failure ''All models failed after multiple retries''
   \<and> provider_calls (snd (generate_analysis clients data sp rc))
     = map (\<lambda>k. completion_request (MODEL_CONFIG (tier_of_retry k)) sp data) [rc..3]"
proof (induction "nat (4 - rc)" arbitrary: rc)
  case 0
  then have "rc > 3" by simp
  then show ?case by (simp add: generate_exhausted)
next
  case (Suc n)
  then have small: "\<not> rc > 3" and n: "n = nat (4 - (rc + 1))" by simp_all
  note IH = Suc.hyps(1) [OF n Suc.prems(1)]
  from small have upto: "[rc..3] = rc # [rc + 1..3]" by (simp add: upto_rec1)
  show ?case
  proof (cases "client (completion_request (MODEL_CONFIG (tier_of_retry rc)) sp data)")
    case (Inl e)
    note step = generate_raised [where client = client and rc = rc and data = data
        and sp = sp and clients = clients, OF small Suc.prems(1) Inl]
    from Suc.prems(2)
    have "\<forall>r \<in> set (provider_calls (snd (generate_analysis clients data sp (rc + 1)))).
            isl (client r)"
      by (simp add: step provider_calls_append)
    from IH [OF this] show ?thesis
      by (simp add: step provider_calls_append upto)
  next
    case (Inr c)
    note step = generate_answered [where client = client and rc = rc and data = data
        and sp = sp and clients = clients, OF small Suc.prems(1) Inr]
    from Suc.prems(2) Inr show ?thesis by (simp add: step)
  qed
qed

text \<open>Every request carries the prompt and the data that \<^verbatim>\<open>generate_analysis\<close> was given.\<close>

lemma generate_requests:
  "\<forall>r \<in> set (provider_calls (snd (generate_analysis clients data sp rc))).
     system_content r = sp \<and> user_data r = data"
proof (induction "nat (4 - rc)" arbitrary: rc)
  case 0
  then have "rc > 3" by simp
  then show ?case by (simp add: generate_exhausted)
next
  case (Suc n)
  then have small: "\<not> rc > 3" and n: "n = nat (4 - (rc + 1))" by simp_all
  note IH = Suc.hyps(1) [OF n]
  show ?case
  proof (cases "clients ''groq''")
    case None
    with small IH show ?thesis by (simp add: generate_skip)
  next
    case (Some client)
    show ?thesis
    proof (cases "client (completion_request (MODEL_CONFIG (tier_of_retry rc)) sp data)")
      case (Inl e)
      with small Some IH show ?thesis
        by (simp add: generate_raised provider_calls_append completion_request_def)
    next
      case (Inr c)
      with small Some show ?thesis
        by (simp add: generate_answered completion_request_def)
    qed
  qed
qed

lemma upto_0_3: "[0..3] = [0, 1, 2, 3::int]"
  by (simp add: upto_rec1)

text \<open>
  C1. \<^verbatim>\<open>generate_analysis\<close> is a total function (its recursion is on \<open>4 - retry_count\<close>),
  and from retry count 0 it makes at most 4 provider calls, whatever the data, the
  prompt, the registry of clients and the behaviour of the client. Without a client for
  the provider each of the four tiers is skipped, and the four skips use up the
  attempts: the result is the failure with no call made. With a client, when every call
  made raises, the calls are those of the four tiers in order and the result is the
  failure with the message \<^verbatim>\<open>All models failed after multiple retries\<close>.
\<close>

theorem generate_analysis_at_most_four_calls:
  "length (provider_calls (snd (generate_analysis clients data system_prompt 0))) \<le> 4
   \<and> (clients ''groq'' = None \<longrightarrow>
        generate_analysis clients data system_prompt 0
          = (Failure ''All models failed after multiple retries'', []))
   \<and> (\<forall>client. clients ''groq'' = Some client
         \<and> (\<forall>r \<in> set (provider_calls (snd (generate_analysis clients data system_prompt 0))).
               isl (client r))
        \<longrightarrow> fst (generate_analysis clients data system_prompt 0)
              = Failure ''All models failed after multiple retries''
            \<and> provider_calls (snd (generate_analysis clients data system_prompt 0))
              = [completion_request (MODEL_CONFIG PRIMARY) system_prompt data,
                 completion_request (MODEL_CONFIG SECONDARY) system_prompt data,
                 completion_request (MODEL_CONFIG TERTIARY) system_prompt data,
                 completion_request (MODEL_CONFIG FALLBACK) system_prompt data])"
proof (intro conjI allI impI)
  show "length (provider_calls (snd (generate_analysis clients data system_prompt 0))) \<le> 4"
    using generate_calls_le [of clients data system_prompt 0] by simp
next
  assume "clients ''groq'' = None"
  then show "generate_analysis clients data system_prompt 0
          = (Failure ''All models failed after multiple retries'', [])"
    by (rule generate_without_client)
next
  fix client
  assume "clients ''groq'' = Some client
         \<and> (\<forall>r \<in> set (provider_calls (snd (generate_analysis clients data system_prompt 0))).
               isl (client r))"
  then have *:
    "fst (generate_analysis clients data system_prompt 0)
       = Failure ''All models failed after multiple retries''
     \<and> provider_calls (snd (generate_analysis clients data system_prompt 0))
       = map (\<lambda>k. completion_request (MODEL_CONFIG (tier_of_retry k)) system_prompt data)
           [0..3]"
    using generate_all_raised [of clients client data system_prompt 0] by blast
  from * show "fst (generate_analysis clients data system_prompt 0)
              = Failure ''All models failed after multiple retries''"
    by simp
  from * show "provider_calls (snd (generate_analysis clients data system_prompt 0))
              = [completion_request (MODEL_CONFIG PRIMARY) system_prompt data,
                 completion_request (MODEL_CONFIG SECONDARY) system_prompt data,
                 completion_request (MODEL_CONFIG TERTIARY) system_prompt data,
                 completion_request (MODEL_CONFIG FALLBACK) system_prompt data]"
    by (simp add: upto_0_3 tier_of_retry_def)
qed

text \<open>
  A registry without a client, and a client that answers every request with a
  rate-limit error.
\<close>

theorem generate_analysis_at_most_four_calls_witness:
  "generate_analysis Map.empty (NonDict ''x'') ''p'' 0
     = (Failure ''All models failed after multiple retries'', [])
   \<and> fst (generate_analysis [''groq'' \<mapsto> (\<lambda>r. Inl ''Rate limit reached'')]
            (NonDict ''x'') ''p'' 0)
     = Failure ''All models failed after multiple retries''
   \<and> length (provider_calls
        (snd (generate_analysis [''groq'' \<mapsto> (\<lambda>r. Inl ''Rate limit reached'')]
               (NonDict ''x'') ''p'' 0)))
     = 4"
  using generate_analysis_at_most_four_calls [of Map.empty "NonDict ''x''" "''p''"]
    generate_analysis_at_most_four_calls
      [of "[''groq'' \<mapsto> (\<lambda>r. Inl ''Rate limit reached'')]" "NonDict ''x''" "''p''"]
  by simp

subsection \<open>The analysis agent\<close>

lemma check_allowed_None:
  "fst (fst (check_rate_limit now1 now2 st)) \<Longrightarrow> snd (fst (check_rate_limit now1 now2 st)) = None"
  by (simp add: check_rate_limit_def Let_def split: prod.splits if_splits)

lemma check_refused_Some:
  "\<not> fst (fst (check_rate_limit now1 now2 st)) \<Longrightarrow>
   \<exists>msg. snd (fst (check_rate_limit now1 now2 st)) = Some msg"
  by (simp add: check_rate_limit_def Let_def split: prod.splits if_splits)

text \<open>Two checks used as examples: two hours into the window, below and at the limit.\<close>

lemma check_below_limit:
  "check_rate_limit 7200000000 7200000000
     \<lparr>analysis_count = 3, last_analysis = 0, analysis_limit = 15,
      models_used = Map.empty, knowledge_base = kb\<rparr>
   = ((True, None),
      \<lparr>analysis_count = 3, last_analysis = 0, analysis_limit = 15,
       models_used = Map.empty, knowledge_base = kb\<rparr>)"
  by (simp add: check_rate_limit_def Let_def td_days_def td_seconds_def
      timedelta_of_days_def us_per_day_def us_per_second_def divmod_def)

lemma check_at_limit:
  "check_rate_limit 7200000000 7200000000
     \<lparr>analysis_count = 15, last_analysis = 0, analysis_limit = 15,
      models_used = Map.empty, knowledge_base = []\<rparr>
   = ((False, Some ''Daily limit reached. Reset in 22h 0m''),
      \<lparr>analysis_count = 15, last_analysis = 0, analysis_limit = 15,
       models_used = Map.empty, knowledge_base = []\<rparr>)"
  by (simp add: check_rate_limit_def Let_def td_days_def td_seconds_def
      timedelta_of_days_def us_per_day_def us_per_second_def divmod_def str_int_def
      digits.simps)

text \<open>
  C3. \<^verbatim>\<open>_update_analytics\<close> on a success dictionary adds exactly 1 to the count, sets
  \<open>last_analysis\<close> to the clock reading, and adds 1 to the entry of the model used,
  which starts at 1 when the model has no entry yet; the limit and the knowledge base
  are not touched. In \<^verbatim>\<open>analyze_report\<close> it runs after a successful generation, on the
  state the rate check left, and the knowledge-base update that follows keeps the three
  fields.
\<close>

theorem update_analytics_success:
  "update_analytics now (Success c m) st
     = st\<lparr>analysis_count := analysis_count st + 1,
          last_analysis := now,
          models_used :=
            (models_used st)(m \<mapsto> (case models_used st m of None \<Rightarrow> 1 | Some n \<Rightarrow> n + 1))\<rparr>
   \<and> (fst (fst (analyze_report clients now1 now2 now3 data system_prompt check_only
                  chat_history st0)) = Generated (Success c m)
      \<longrightarrow> analysis_count (snd (analyze_report clients now1 now2 now3 data system_prompt
                                 check_only chat_history st0))
            = analysis_count (snd (check_rate_limit now1 now2 st0)) + 1
          \<and> last_analysis (snd (analyze_report clients now1 now2 now3 data system_prompt
                                   check_only chat_history st0)) = now3
          \<and> models_used (snd (analyze_report clients now1 now2 now3 data system_prompt
                                 check_only chat_history st0))
            = (models_used (snd (check_rate_limit now1 now2 st0)))
                (m \<mapsto> (case models_used (snd (check_rate_limit now1 now2 st0)) m of
                          None \<Rightarrow> 1 | Some n \<Rightarrow> n + 1)))"
proof -
  have step: "update_analytics t (Success c m) s
     = s\<lparr>analysis_count := analysis_count s + 1, last_analysis := t,
         models_used :=
           (models_used s)(m \<mapsto> (case models_used s m of None \<Rightarrow> 1 | Some n \<Rightarrow> n + 1))\<rparr>"
    for t s
    by (simp add: update_analytics_def Let_def split: option.splits)
  show ?thesis
    by (auto simp add: step analyze_report_def Let_def
        split: prod.splits gen_result.splits if_splits)
qed

text \<open>A first analysis answered by the primary model, six hours into the window.\<close>

theorem update_analytics_success_witness:
  "fst (fst (analyze_report [''groq'' \<mapsto> (\<lambda>r. Inr ''Glucose is normal.'')]
          7200000000 7200000000 21600000000
          (DictData \<lparr>patient_name = Some ''A'', age = Some ''30'', gender = Some ''F'',
                     report = Some ''Glucose 90''\<rparr>)
          ''Base'' False None
          \<lparr>analysis_count = 3, last_analysis = 0, analysis_limit = 15,
           models_used = Map.empty, knowledge_base = []\<rparr>))
     = Generated (Success ''Glucose is normal.'' ''groq/llama-3.3-70b-versatile'')
   \<and> analysis_count (snd (analyze_report [''groq'' \<mapsto> (\<lambda>r. Inr ''Glucose is normal.'')]
          7200000000 7200000000 21600000000
          (DictData \<lparr>patient_name = Some ''A'', age = Some ''30'', gender = Some ''F'',
                     report = Some ''Glucose 90''\<rparr>)
          ''Base'' False None
          \<lparr>analysis_count = 3, last_analysis = 0, analysis_limit = 15,
           models_used = Map.empty, knowledge_base = []\<rparr>)) = 4
   \<and> last_analysis (snd (analyze_report [''groq'' \<mapsto> (\<lambda>r. Inr ''Glucose is normal.'')]
          7200000000 7200000000 21600000000
          (DictData \<lparr>patient_name = Some ''A'', age = Some ''30'', gender = Some ''F'',
                     report = Some ''Glucose 90''\<rparr>)
          ''Base'' False None
          \<lparr>analysis_count = 3, last_analysis = 0, analysis_limit = 15,
           models_used = Map.empty, knowledge_base = []\<rparr>)) = 21600000000
   \<and> models_used (snd (analyze_report [''groq'' \<mapsto> (\<lambda>r. Inr ''Glucose is normal.'')]
          7200000000 7200000000 21600000000
          (DictData \<lparr>patient_name = Some ''A'', age = Some ''30'', gender = Some ''F'',
                     report = Some ''Glucose 90''\<rparr>)
          ''Base'' False None
          \<lparr>analysis_count = 3, last_analysis = 0, analysis_limit = 15,
           models_used = Map.empty, knowledge_base = []\<rparr>))
       ''groq/llama-3.3-70b-versatile'' = Some 1"
proof -
  have h: "fst (fst (analyze_report [''groq'' \<mapsto> (\<lambda>r. Inr ''Glucose is normal.'')]
          7200000000 7200000000 21600000000
          (DictData \<lparr>patient_name = Some ''A'', age = Some ''30'', gender = Some ''F'',
                     report = Some ''Glucose 90''\<rparr>)
          ''Base'' False None
          \<lparr>analysis_count = 3, last_analysis = 0, analysis_limit = 15,
           models_used = Map.empty, knowledge_base = []\<rparr>))
     = Generated (Success ''Glucose is normal.'' ''groq/llama-3.3-70b-versatile'')"
    by (simp add: analyze_report_def check_below_limit Let_def tier_of_retry_def
        generate_answered [where client = "\<lambda>r. Inr ''Glucose is normal.''"])
  from h update_analytics_success [of 0 "''Glucose is normal.''"
      "''groq/llama-3.3-70b-versatile''" "init_state 0"
      "[''groq'' \<mapsto> (\<lambda>r. Inr ''Glucose is normal.'')]" 7200000000 7200000000 21600000000
      "DictData \<lparr>patient_name = Some ''A'', age = Some ''30'', gender = Some ''F'',
                 report = Some ''Glucose 90''\<rparr>"
      "''Base''" False None
      "\<lparr>analysis_count = 3, last_analysis = 0, analysis_limit = 15,
        models_used = Map.empty, knowledge_base = []\<rparr>"]
  show ?thesis by (simp add: check_below_limit)
qed

text \<open>
  C5. When the generation ends in a failure dictionary, the session state that
  \<^verbatim>\<open>analyze_report\<close> leaves is the one the rate check left: the count, \<open>last_analysis\<close>,
  the model counts and the knowledge base are those after \<^verbatim>\<open>check_rate_limit\<close>.
  Conversely, a state that differs from the one the rate check left comes with a
  success dictionary.
\<close>

theorem analyze_report_failure_keeps_state:
  "(fst (fst (analyze_report clients now1 now2 now3 data system_prompt check_only
               chat_history st)) = Generated (Failure e)
    \<longrightarrow> snd (analyze_report clients now1 now2 now3 data system_prompt check_only
               chat_history st)
        = snd (check_rate_limit now1 now2 st))
   \<and> (snd (analyze_report clients now1 now2 now3 data system_prompt check_only
             chat_history st)
        \<noteq> snd (check_rate_limit now1 now2 st)
      \<longrightarrow> (\<exists>c m. fst (fst (analyze_report clients now1 now2 now3 data system_prompt
                              check_only chat_history st)) = Generated (Success c m)))"
  by (auto simp add: analyze_report_def Let_def
      split: prod.splits gen_result.splits if_splits)

text \<open>No client is registered, so all four tiers are skipped and the generation fails.\<close>

theorem analyze_report_failure_keeps_state_witness:
  "fst (fst (analyze_report Map.empty 7200000000 7200000000 7200000001 (NonDict ''x'')
          ''p'' False None
          \<lparr>analysis_count = 3, last_analysis = 0, analysis_limit = 15,
           models_used = Map.empty,
           knowledge_base = [(''glucose'', [(''30-F'', [''Glucose is normal.''])])]\<rparr>))
     = Generated (Failure ''All models failed after multiple retries'')
   \<and> snd (analyze_report Map.empty 7200000000 7200000000 7200000001 (NonDict ''x'')
          ''p'' False None
          \<lparr>analysis_count = 3, last_analysis = 0, analysis_limit = 15,
           models_used = Map.empty,
           knowledge_base = [(''glucose'', [(''30-F'', [''Glucose is normal.''])])]\<rparr>)
     = \<lparr>analysis_count = 3, last_analysis = 0, analysis_limit = 15,
        models_used = Map.empty,
        knowledge_base = [(''glucose'', [(''30-F'', [''Glucose is normal.''])])]\<rparr>"
proof -
  have h: "fst (fst (analyze_report Map.empty 7200000000 7200000000 7200000001
          (NonDict ''x'') ''p'' False None
          \<lparr>analysis_count = 3, last_analysis = 0, analysis_limit = 15,
           models_used = Map.empty,
           knowledge_base = [(''glucose'', [(''30-F'', [''Glucose is normal.''])])]\<rparr>))
     = Generated (Failure ''All models failed after multiple retries'')"
    by (simp add: analyze_report_def check_below_limit generate_without_client)
  from h analyze_report_failure_keeps_state [of Map.empty 7200000000 7200000000 7200000001
      "NonDict ''x''" "''p''" False None
      "\<lparr>analysis_count = 3, last_analysis = 0, analysis_limit = 15,
        models_used = Map.empty,
        knowledge_base = [(''glucose'', [(''30-F'', [''Glucose is normal.''])])]\<rparr>"
      "''All models failed after multiple retries''"]
  show ?thesis by (simp add: check_below_limit)
qed

text \<open>
  C8. With \<^verbatim>\<open>chat_history\<close> absent or empty, the prompt composed at line 88 is the system
  prompt itself; the generation \<^verbatim>\<open>analyze_report\<close> runs is the one on the system prompt,
  and every request a provider receives carries it as its system message.
\<close>

theorem analyze_report_prompt_unchanged_without_history:
  assumes "chat_history = None \<or> chat_history = Some []"
  shows "enhanced_prompt_of system_prompt processed_data chat_history kb = system_prompt
    \<and> (fst (fst (check_rate_limit now1 now2 st)) \<and> \<not> check_only \<longrightarrow>
         fst (analyze_report clients now1 now2 now3 data system_prompt check_only
               chat_history st)
           = (Generated (fst (generate_analysis clients (preprocess_data data)
                                 system_prompt 0)),
              snd (generate_analysis clients (preprocess_data data) system_prompt 0)))
    \<and> (\<forall>r \<in> set (provider_calls (snd (fst (analyze_report clients now1 now2 now3 data
                                               system_prompt check_only chat_history st)))).
          system_content r = system_prompt)"
proof -
  from assms have "\<not> truthy chat_history" by auto
  then have p: "enhanced_prompt_of system_prompt d chat_history k = system_prompt" for d k
    by (simp add: enhanced_prompt_of_def)
  have q: "fst (fst (check_rate_limit now1 now2 st)) \<and> \<not> check_only \<longrightarrow>
       fst (analyze_report clients now1 now2 now3 data system_prompt check_only
             chat_history st)
         = (Generated (fst (generate_analysis clients (preprocess_data data)
                               system_prompt 0)),
            snd (generate_analysis clients (preprocess_data data) system_prompt 0))"
    by (auto simp add: analyze_report_def Let_def p split: prod.splits gen_result.splits)
  have r: "\<forall>r \<in> set (provider_calls (snd (fst (analyze_report clients now1 now2 now3 data
                                               system_prompt check_only chat_history st)))).
          system_content r = system_prompt"
    using generate_requests [of clients "preprocess_data data" system_prompt 0]
    by (auto simp add: analyze_report_def Let_def p split: prod.splits gen_result.splits)
  from p q r show ?thesis by blast
qed

text \<open>
  A client that answers with the system message it was sent, and a knowledge base that
  holds a snippet for an indicator of the report: the answer is the bare system prompt.
\<close>

theorem analyze_report_prompt_unchanged_without_history_witness:
  "fst (fst (analyze_report [''groq'' \<mapsto> (\<lambda>r. Inr (system_content r))]
          7200000000 7200000000 7200000001
          (DictData \<lparr>patient_name = Some ''A'', age = Some ''30'', gender = Some ''F'',
                     report = Some ''Glucose 90''\<rparr>)
          ''Base'' False (Some [])
          \<lparr>analysis_count = 3, last_analysis = 0, analysis_limit = 15,
           models_used = Map.empty,
           knowledge_base = [(''glucose'', [(''30-F'', [''Glucose is normal.''])])]\<rparr>))
    = Generated (Success ''Base'' ''groq/llama-3.3-70b-versatile'')"
  using analyze_report_prompt_unchanged_without_history [of "Some []" "''Base''"
      "NonDict ''x''" "[]" 7200000000 7200000000
      "\<lparr>analysis_count = 3, last_analysis = 0, analysis_limit = 15,
        models_used = Map.empty,
        knowledge_base = [(''glucose'', [(''30-F'', [''Glucose is normal.''])])]\<rparr>"
      False "[''groq'' \<mapsto> (\<lambda>r. Inr (system_content r))]" 7200000001
      "DictData \<lparr>patient_name = Some ''A'', age = Some ''30'', gender = Some ''F'',
                 report = Some ''Glucose 90''\<rparr>"]
  by (simp add: check_below_limit tier_of_retry_def completion_request_def
      generate_answered [where client = "\<lambda>r. Inr (system_content r)"])

text \<open>
  C10. With \<^verbatim>\<open>check_only=True\<close>, \<^verbatim>\<open>analyze_report\<close> returns the bare tuple
  \<^verbatim>\<open>(True, None)\<close> when the rate check allows, and the dictionary
  \<^verbatim>\<open>{"success": False, "error": message}\<close> with the message of the rate check when it
  refuses: two results of different shapes.
\<close>

theorem analyze_report_check_only_two_shapes:
  "(fst (fst (check_rate_limit now1 now2 st)) \<longrightarrow>
      fst (analyze_report clients now1 now2 now3 data system_prompt True chat_history st)
        = (CheckTuple True None, []))
   \<and> (\<not> fst (fst (check_rate_limit now1 now2 st)) \<longrightarrow>
      fst (analyze_report clients now1 now2 now3 data system_prompt True chat_history st)
        = (LimitDict (snd (fst (check_rate_limit now1 now2 st))), [])
      \<and> (\<exists>msg. snd (fst (check_rate_limit now1 now2 st)) = Some msg))
   \<and> is_dict (LimitDict e) \<noteq> is_dict (CheckTuple True None)"
  using check_allowed_None [of now1 now2 st] check_refused_Some [of now1 now2 st]
  by (auto simp add: analyze_report_def split: prod.splits)

text \<open>The same request two hours into the window, with 3 and with 15 of 15 analyses used.\<close>

theorem analyze_report_check_only_two_shapes_witness:
  "fst (analyze_report Map.empty 7200000000 7200000000 7200000001 (NonDict ''None'')
          ''None'' True None
          \<lparr>analysis_count = 3, last_analysis = 0, analysis_limit = 15,
           models_used = Map.empty, knowledge_base = []\<rparr>)
     = (CheckTuple True None, [])
   \<and> fst (analyze_report Map.empty 7200000000 7200000000 7200000001 (NonDict ''None'')
          ''None'' True None
          \<lparr>analysis_count = 15, last_analysis = 0, analysis_limit = 15,
           models_used = Map.empty, knowledge_base = []\<rparr>)
     = (LimitDict (Some ''Daily limit reached. Reset in 22h 0m''), [])"
  using analyze_report_check_only_two_shapes [of 7200000000 7200000000
      "\<lparr>analysis_count = 3, last_analysis = 0, analysis_limit = 15,
        models_used = Map.empty, knowledge_base = []\<rparr>"
      Map.empty 7200000001 "NonDict ''None''" "''None''" None None]
    analyze_report_check_only_two_shapes [of 7200000000 7200000000
      "\<lparr>analysis_count = 15, last_analysis = 0, analysis_limit = 15,
        models_used = Map.empty, knowledge_base = []\<rparr>"
      Map.empty 7200000001 "NonDict ''None''" "''None''" None None]
  by (simp add: check_below_limit check_at_limit)

subsection \<open>Knowledge base\<close>

text \<open>What a read of \<^verbatim>\<open>knowledge_base[i'][p']\<close> gives after each kind of write.\<close>

lemma get_profiles_update:
  "get_profiles (AList.update i ps kb) i' = (if i' = i then ps else get_profiles kb i')"
  by (simp add: get_profiles_def update_conv')

lemma get_insights_set_insights:
  "get_insights (set_insights kb i p xs) i' p'
     = (if i' = i \<and> p' = p then xs else get_insights kb i' p')"
  by (simp add: get_insights_def set_insights_def get_profiles_update update_conv')

lemma get_insights_create_indicator:
  "map_of kb i = None \<Longrightarrow> get_insights (AList.update i [] kb) i' p' = get_insights kb i' p'"
  by (simp add: get_insights_def get_profiles_update) (simp add: get_profiles_def)

lemma get_insights_create_profile:
  "map_of (get_profiles kb i) p = None \<Longrightarrow>
   get_insights (set_insights kb i p []) i' p' = get_insights kb i' p'"
  by (simp add: get_insights_set_insights) (simp add: get_insights_def)

text \<open>One pass of the loop body changes one list, as \<^const>\<open>store_snippet\<close> says.\<close>

lemma get_insights_learn:
  "get_insights (learn_indicator rt pp an ind kb) i p
     = (if i = ind \<and> p = pp \<and> str_in ind rt \<and> str_in ind (lower an)
        then store_snippet (filter (\<lambda>l. str_in ind (lower l)) (split an newline))
               (get_insights kb i p)
        else get_insights kb i p)"
proof (cases "str_in ind rt \<and> str_in ind (lower an)")
  case False
  then show ?thesis by (auto simp add: learn_indicator_def)
next
  case True
  define kb1 where "kb1 = (if map_of kb ind = None then AList.update ind [] kb else kb)"
  define kb2 where "kb2 = (if map_of (get_profiles kb1 ind) pp = None
                           then set_insights kb1 ind pp [] else kb1)"
  define rel where "rel = filter (\<lambda>l. str_in ind (lower l)) (split an newline)"
  have k1: "get_insights kb1 i' p' = get_insights kb i' p'" for i' p'
    by (simp add: kb1_def get_insights_create_indicator)
  have k2: "get_insights kb2 i' p' = get_insights kb i' p'" for i' p'
    by (simp add: kb2_def get_insights_create_profile k1)
  have unfold: "learn_indicator rt pp an ind kb =
      (case rel of
         [] \<Rightarrow> kb2
       | l # _ \<Rightarrow>
           let kb3 = (if length (get_insights kb2 ind pp) \<ge> 3
                      then set_insights kb2 ind pp (tl (get_insights kb2 ind pp))
                      else kb2)
           in set_insights kb3 ind pp (get_insights kb3 ind pp @ [l]))"
    using True by (simp only: learn_indicator_def Let_def kb1_def kb2_def rel_def if_True)
  show ?thesis
  proof (cases rel)
    case Nil
    with True show ?thesis
      by (simp add: unfold k2 store_snippet_def rel_def [symmetric])
  next
    case (Cons l ls)
    with True show ?thesis
      by (simp add: unfold Let_def k2 store_snippet_def rel_def [symmetric]
          get_insights_set_insights)
  qed
qed

lemma length_store_snippet: "length xs \<le> 3 \<Longrightarrow> length (store_snippet rel xs) \<le> 3"
  by (cases rel) (auto simp add: store_snippet_def)

lemma learn_indicator_bounded:
  "\<forall>i p. length (get_insights kb i p) \<le> 3 \<Longrightarrow>
   \<forall>i p. length (get_insights (learn_indicator rt pp an ind kb) i p) \<le> 3"
  by (simp add: get_insights_learn length_store_snippet)

lemma fold_learn_bounded:
  "\<forall>i p. length (get_insights kb i p) \<le> 3 \<Longrightarrow>
   \<forall>i p. length (get_insights (fold (learn_indicator rt pp an) inds kb) i p) \<le> 3"
proof (induction inds arbitrary: kb)
  case Nil
  then show ?case by simp
next
  case (Cons a inds)
  from Cons.IH [OF learn_indicator_bounded [OF Cons.prems]] show ?case by simp
qed

lemma update_knowledge_base_bounded:
  "\<forall>i p. length (get_insights kb i p) \<le> 3 \<Longrightarrow>
   \<forall>i p. length (get_insights (update_knowledge_base data an kb) i p) \<le> 3"
  by (auto simp add: update_knowledge_base_def Let_def fold_learn_bounded
      split: py_data.splits option.splits)

lemma update_all_bounded:
  "\<forall>i p. length (get_insights kb i p) \<le> 3 \<Longrightarrow>
   \<forall>i p. length (get_insights (update_all us kb) i p) \<le> 3"
proof (induction us kb rule: update_all.induct)
  case (1 kb)
  then show ?case by simp
next
  case (2 data analysis us kb)
  from "2.IH" [OF update_knowledge_base_bounded [OF "2.prems"]] show ?case by simp
qed

text \<open>The loop visits each indicator once, and a visit touches only its own lists.\<close>

lemma fold_learn_other:
  "i \<notin> set inds \<Longrightarrow>
   get_insights (fold (learn_indicator rt pp an) inds kb) i p = get_insights kb i p"
  by (induction inds arbitrary: kb) (simp_all add: get_insights_learn)

lemma fold_learn_once:
  "distinct inds \<Longrightarrow> i \<in> set inds \<Longrightarrow>
   get_insights (fold (learn_indicator rt pp an) inds kb) i p
     = get_insights (learn_indicator rt pp an i kb) i p"
proof (induction inds arbitrary: kb)
  case Nil
  then show ?case by simp
next
  case (Cons a inds)
  show ?case
  proof (cases "a = i")
    case True
    with Cons.prems have "i \<notin> set inds" by simp
    with True show ?thesis by (simp add: fold_learn_other)
  next
    case False
    with Cons.prems have "distinct inds" "i \<in> set inds" by simp_all
    from Cons.IH [OF this] False show ?thesis
      by (simp add: get_insights_learn)
  qed
qed

lemma distinct_key_indicators: "distinct key_indicators"
  by (simp add: key_indicators_def)

lemma update_knowledge_base_stores:
  assumes "indicator \<in> set key_indicators"
    and "report d = Some r"
    and "str_in indicator (lower r)"
    and "str_in indicator (lower analysis)"
  shows "get_insights (update_knowledge_base (DictData d) analysis kb) indicator
           (patient_profile_of d)
         = store_snippet (filter (\<lambda>l. str_in indicator (lower l)) (split analysis newline))
             (get_insights kb indicator (patient_profile_of d))"
  using assms
  by (simp add: update_knowledge_base_def Let_def get_insights_learn
      fold_learn_once [OF distinct_key_indicators])

text \<open>
  C4. After any sequence of updates of the empty knowledge base, and of any knowledge
  base whose lists hold at most 3 snippets, every list
  \<^verbatim>\<open>knowledge_base[indicator][profile]\<close> holds at most 3 snippets. An update that stores a
  line for an indicator and a profile appends it to the list, after dropping the oldest
  entry when the list already holds 3: the list \<open>[a, b, c]\<close> becomes
  \<open>[b, c, first_line]\<close>.
\<close>

theorem knowledge_base_fifo_cap:
  "length (get_insights (update_all us []) indicator profile) \<le> 3
   \<and> ((\<forall>i p. length (get_insights kb i p) \<le> 3)
        \<longrightarrow> length (get_insights (update_all us kb) indicator profile) \<le> 3)
   \<and> (indicator \<in> set key_indicators \<and> report d = Some r \<and> str_in indicator (lower r)
        \<and> str_in indicator (lower analysis)
        \<and> filter (\<lambda>l. str_in indicator (lower l)) (split analysis newline)
            = first_line # other_lines
      \<longrightarrow> get_insights (update_knowledge_base (DictData d) analysis kb) indicator
            (patient_profile_of d)
          = (if length (get_insights kb indicator (patient_profile_of d)) \<ge> 3
             then tl (get_insights kb indicator (patient_profile_of d))
             else get_insights kb indicator (patient_profile_of d)) @ [first_line]
        \<and> (get_insights kb indicator (patient_profile_of d) = [a, b, c]
            \<longrightarrow> get_insights (update_knowledge_base (DictData d) analysis kb) indicator
                  (patient_profile_of d) = [b, c, first_line]))"
proof (intro conjI impI)
  have empty: "\<forall>i p. length (get_insights [] i p) \<le> 3"
    by (simp add: get_insights_def get_profiles_def)
  from update_all_bounded [OF empty]
  show "length (get_insights (update_all us []) indicator profile) \<le> 3" by blast
next
  assume "\<forall>i p. length (get_insights kb i p) \<le> 3"
  from update_all_bounded [OF this]
  show "length (get_insights (update_all us kb) indicator profile) \<le> 3" by blast
next
  assume a: "indicator \<in> set key_indicators \<and> report d = Some r \<and> str_in indicator (lower r)
        \<and> str_in indicator (lower analysis)
        \<and> filter (\<lambda>l. str_in indicator (lower l)) (split analysis newline)
            = first_line # other_lines"
  then have stored:
    "get_insights (update_knowledge_base (DictData d) analysis kb) indicator
       (patient_profile_of d)
     = store_snippet (first_line # other_lines)
         (get_insights kb indicator (patient_profile_of d))"
    using update_knowledge_base_stores [of indicator d r analysis kb] by simp
  then show "get_insights (update_knowledge_base (DictData d) analysis kb) indicator
            (patient_profile_of d)
          = (if length (get_insights kb indicator (patient_profile_of d)) \<ge> 3
             then tl (get_insights kb indicator (patient_profile_of d))
             else get_insights kb indicator (patient_profile_of d)) @ [first_line]"
    by (simp add: store_snippet_def)
  assume "get_insights kb indicator (patient_profile_of d) = [a, b, c]"
  with stored
  show "get_insights (update_knowledge_base (DictData d) analysis kb) indicator
          (patient_profile_of d) = [b, c, first_line]"
    by (simp add: store_snippet_def)
qed

text \<open>
  A fourth analysis of a report that mentions hemoglobin, for the profile that already
  holds three snippets.
\<close>

theorem knowledge_base_fifo_cap_witness:
  "get_insights
     (update_knowledge_base
        (DictData \<lparr>patient_name = Some ''A'', age = Some ''30'', gender = Some ''Female'',
                   report = Some ''Hemoglobin: 14.2 g/dL''\<rparr>)
        ''Hemoglobin is fine.''
        [(''hemoglobin'', [(''30-Female'', [''one'', ''two'', ''three''])])])
     ''hemoglobin'' ''30-Female''
   = [''two'', ''three'', ''Hemoglobin is fine.'']
   \<and> length (get_insights
        (update_all
           [(DictData \<lparr>patient_name = Some ''A'', age = Some ''30'', gender = Some ''Female'',
                       report = Some ''Hemoglobin: 14.2 g/dL''\<rparr>, ''Hemoglobin is fine.'')]
           [(''hemoglobin'', [(''30-Female'', [''one'', ''two'', ''three''])])])
        ''hemoglobin'' ''30-Female'') \<le> 3"
proof -
  let ?d = "\<lparr>patient_name = Some ''A'', age = Some ''30'', gender = Some ''Female'',
             report = Some ''Hemoglobin: 14.2 g/dL''\<rparr>"
  let ?kb = "[(''hemoglobin'', [(''30-Female'', [''one'', ''two'', ''three''])])]"
  have h1: "''hemoglobin'' \<in> set key_indicators"
    by (simp add: key_indicators_def)
  have h2: "report ?d = Some ''Hemoglobin: 14.2 g/dL''"
    by simp
  have h3: "str_in ''hemoglobin'' (lower ''Hemoglobin: 14.2 g/dL'')"
    by code_simp
  have h4: "str_in ''hemoglobin'' (lower ''Hemoglobin is fine.'')"
    by code_simp
  have h5: "filter (\<lambda>l. str_in ''hemoglobin'' (lower l)) (split ''Hemoglobin is fine.'' newline)
            = ''Hemoglobin is fine.'' # []"
    by code_simp
  have h6: "patient_profile_of ?d = ''30-Female''"
    by (simp add: patient_profile_of_def)
  have h7: "get_insights ?kb ''hemoglobin'' ''30-Female'' = [''one'', ''two'', ''three'']"
    by (simp add: get_insights_def get_profiles_def)
  have h8: "\<forall>i p. length (get_insights ?kb i p) \<le> 3"
    by (simp add: get_insights_def get_profiles_def)
  from h1 h2 h3 h4 h5 h6 h7 h8
    knowledge_base_fifo_cap [of "[(DictData ?d, ''Hemoglobin is fine.'')]" "''hemoglobin''"
      "''30-Female''" ?kb ?d "''Hemoglobin: 14.2 g/dL''" "''Hemoglobin is fine.''"
      "''Hemoglobin is fine.''" "[]" "''one''" "''two''" "''three''"]
  show ?thesis by simp
qed

subsection \<open>Prompt composer: session recall\<close>

lemma length_truncate_message: "length (truncate_message msg) \<le> 200"
  by (simp add: truncate_message_def)

text \<open>The four ways one pass of the loop can go.\<close>

lemma session_loop_done: "\<not> i > 0 \<Longrightarrow> session_loop h i acc = acc"
  by (simp add: session_loop.simps)

lemma session_loop_skip:
  "i > 0 \<Longrightarrow> \<not> (role (h ! (i - 1)) = ''user'' \<and> role (h ! i) = ''assistant'') \<Longrightarrow>
   session_loop h i acc = session_loop h (i - 2) acc"
  by (subst session_loop.simps) auto

lemma session_loop_break:
  "i > 0 \<Longrightarrow> role (h ! (i - 1)) = ''user'' \<and> role (h ! i) = ''assistant'' \<Longrightarrow>
   length acc \<ge> 1 \<Longrightarrow>
   session_loop h i acc
     = acc @ [exchange (truncate_message (content (h ! (i - 1))))
                (truncate_message (content (h ! i)))]"
  by (subst session_loop.simps) (simp add: Let_def Suc_le_eq)

lemma session_loop_collect:
  "i > 0 \<Longrightarrow> role (h ! (i - 1)) = ''user'' \<and> role (h ! i) = ''assistant'' \<Longrightarrow>
   \<not> length acc \<ge> 1 \<Longrightarrow>
   session_loop h i acc
     = session_loop h (i - 2)
         (acc @ [exchange (truncate_message (content (h ! (i - 1))))
                   (truncate_message (content (h ! i)))])"
  by (subst session_loop.simps) (simp add: Let_def Suc_le_eq)

text \<open>The loop never returns more than two items when it starts with fewer than two.\<close>

lemma session_loop_length:
  "length acc < 2 \<Longrightarrow> length (session_loop h i acc) \<le> 2"
proof (induction i arbitrary: acc rule: less_induct)
  case (less i)
  show ?case
  proof (cases "i > 0")
    case False
    with less.prems show ?thesis by (simp add: session_loop_done)
  next
    case True
    then have smaller: "i - 2 < i" by simp
    show ?thesis
    proof (cases "role (h ! (i - 1)) = ''user'' \<and> role (h ! i) = ''assistant''")
      case False
      with True less.IH [OF smaller less.prems] show ?thesis
        by (simp add: session_loop_skip)
    next
      case paired: True
      show ?thesis
      proof (cases "length acc \<ge> 1")
        case True
        from session_loop_break [OF \<open>i > 0\<close> paired True]
        have "length (session_loop h i acc) = length acc + 1" by simp
        with less.prems show ?thesis by linarith
      next
        case False
        then have "length acc = 0" by linarith
        then have "length (acc @ [exchange (truncate_message (content (h ! (i - 1))))
                                    (truncate_message (content (h ! i)))]) < 2"
          by simp
        from less.IH [OF smaller this] session_loop_collect [OF \<open>i > 0\<close> paired False]
        show ?thesis by simp
      qed
    qed
  qed
qed

text \<open>Every item the loop adds renders an adjacent user/assistant pair of the history.\<close>

lemma session_loop_items:
  "i < length h \<Longrightarrow> set acc \<subseteq> set (adjacent_exchanges h) \<Longrightarrow>
   set (session_loop h i acc) \<subseteq> set (adjacent_exchanges h)"
proof (induction i arbitrary: acc rule: less_induct)
  case (less i)
  show ?case
  proof (cases "i > 0")
    case False
    with less.prems show ?thesis by (simp add: session_loop_done)
  next
    case True
    with less.prems have smaller: "i - 2 < i" and inside: "i - 2 < length h" by simp_all
    show ?thesis
    proof (cases "role (h ! (i - 1)) = ''user'' \<and> role (h ! i) = ''assistant''")
      case False
      with True less.IH [OF smaller inside less.prems(2)] show ?thesis
        by (simp add: session_loop_skip)
    next
      case paired: True
      let ?x = "exchange (truncate_message (content (h ! (i - 1))))
                  (truncate_message (content (h ! i)))"
      from paired True less.prems(1) have "i \<in> set (filter
          (\<lambda>i. role (h ! (i - 1)) = ''user'' \<and> role (h ! i) = ''assistant'') [1..<length h])"
        by simp
      then have "?x \<in> set (adjacent_exchanges h)"
        unfolding adjacent_exchanges_def set_map
        by (intro image_eqI [where x = i]) simp_all
      with less.prems(2) have items: "set (acc @ [?x]) \<subseteq> set (adjacent_exchanges h)"
        by simp
      show ?thesis
      proof (cases "length acc \<ge> 1")
        case True
        from session_loop_break [OF \<open>i > 0\<close> paired True] items show ?thesis
          by simp
      next
        case False
        from less.IH [OF smaller inside items]
          session_loop_collect [OF \<open>i > 0\<close> paired False]
        show ?thesis by simp
      qed
    qed
  qed
qed

lemma session_items_adjacent: "set (session_items h) \<subseteq> set (adjacent_exchanges h)"
proof (cases "h = []")
  case True
  then show ?thesis by (simp add: session_items_def session_loop.simps)
next
  case False
  then have "length h - 1 < length h" by simp
  from session_loop_items [OF this, of "[]"] show ?thesis by (simp add: session_items_def)
qed

text \<open>
  C6. The session recall is built from at most 2 exchanges, each the rendering of an
  adjacent user/assistant pair of the history with both messages passed through the
  truncation. A message of more than 200 characters is cut to its first 197 characters
  followed by the marker \<^verbatim>\<open>...\<close>, 200 characters in all; a shorter one is kept as it
  is. So every emitted message is at most 200 characters long, which is within 200
  characters plus the marker.
\<close>

theorem session_recall_bounded:
  "length (session_items h) \<le> 2
   \<and> set (session_items h) \<subseteq> set (adjacent_exchanges h)
   \<and> get_session_context (Some h)
       = (if length h < 2 then [] else join [newline, newline] (rev (session_items h)))
   \<and> length (truncate_message msg) \<le> 200 + length ''...''
   \<and> length (truncate_message msg) \<le> 200
   \<and> (length msg > 200 \<longrightarrow> truncate_message msg = take 197 msg @ ''...'')
   \<and> (length msg \<le> 200 \<longrightarrow> truncate_message msg = msg)"
proof (intro conjI)
  show "length (session_items h) \<le> 2"
    using session_loop_length [of "[]" h "length h - 1"] by (simp add: session_items_def)
  show "set (session_items h) \<subseteq> set (adjacent_exchanges h)"
    by (rule session_items_adjacent)
  show "get_session_context (Some h)
       = (if length h < 2 then [] else join [newline, newline] (rev (session_items h)))"
    by (cases "session_items h = []") (auto simp add: get_session_context_def Let_def)
  show "length (truncate_message msg) \<le> 200 + length ''...''"
    using length_truncate_message [of msg] by simp
  show "length (truncate_message msg) \<le> 200"
    by (rule length_truncate_message)
  show "length msg > 200 \<longrightarrow> truncate_message msg = take 197 msg @ ''...''"
    by (simp add: truncate_message_def)
  show "length msg \<le> 200 \<longrightarrow> truncate_message msg = msg"
    by (simp add: truncate_message_def)
qed

text \<open>
  Scenario D of the specification, a history of three exchanges, and a message of 201
  characters.
\<close>

theorem session_recall_bounded_witness:
  "get_session_context
     (Some [\<lparr>role = ''user'', content = ''q1''\<rparr>, \<lparr>role = ''assistant'', content = ''a1''\<rparr>,
            \<lparr>role = ''user'', content = ''q2''\<rparr>, \<lparr>role = ''assistant'', content = ''a2''\<rparr>,
            \<lparr>role = ''user'', content = ''q3''\<rparr>, \<lparr>role = ''assistant'', content = ''a3''\<rparr>])
   = join [newline, newline]
       [exchange ''q2'' ''a2'', exchange ''q3'' ''a3'']
   \<and> length (replicate 201 (CHR ''x'')) > 200
   \<and> truncate_message (replicate 201 (CHR ''x'')) = replicate 197 (CHR ''x'') @ ''...''"
proof -
  let ?h = "[\<lparr>role = ''user'', content = ''q1''\<rparr>, \<lparr>role = ''assistant'', content = ''a1''\<rparr>,
             \<lparr>role = ''user'', content = ''q2''\<rparr>, \<lparr>role = ''assistant'', content = ''a2''\<rparr>,
             \<lparr>role = ''user'', content = ''q3''\<rparr>, \<lparr>role = ''assistant'', content = ''a3''\<rparr>]"
  have items: "session_items ?h = [exchange ''q3'' ''a3'', exchange ''q2'' ''a2'']"
    by (simp add: session_items_def session_loop.simps truncate_message_def Let_def)
  have long: "length (replicate 201 (CHR ''x'')) > 200"
    by simp
  from items long
    session_recall_bounded [of ?h "replicate 201 (CHR ''x'')"]
  show ?thesis by simp
qed

subsection \<open>Prompt composer: knowledge recall\<close>

text \<open>The iterations that append to \<^verbatim>\<open>context_items\<close>, as concatenations.\<close>

lemma fold_snoc_map: "fold (\<lambda>x acc. acc @ [f x]) xs acc = acc @ map f xs"
  by (induction xs arbitrary: acc) simp_all

lemma other_profiles_items_eq:
  "other_profiles_items indicator pp profs acc
     = acc @ concat (map (\<lambda>(profile, insights).
                            map (bullet indicator ''other patient profile'') insights)
                       (filter (\<lambda>(profile, insights). profile \<noteq> pp) profs))"
  unfolding other_profiles_items_def
  by (induction profs arbitrary: acc) (auto simp add: fold_snoc_map)

lemma indicator_items_eq:
  "indicator_items rt pp (indicator, profs) acc
     = acc @ (if str_in indicator rt then indicator_bullets indicator pp profs else [])"
  by (simp add: indicator_items_def indicator_bullets_def other_profiles_items_eq
      fold_snoc_map split: option.splits)

lemma fold_indicator_items_eq:
  "fold (indicator_items rt pp) kb acc
     = acc @ concat (map (\<lambda>(indicator, profs). indicator_bullets indicator pp profs)
                       (filter (\<lambda>(indicator, profs). str_in indicator rt) kb))"
  by (induction kb arbitrary: acc) (auto simp add: indicator_items_eq)

lemma kb_context_items_eq:
  "kb_context_items d kb
     = take 5 (concat (map (\<lambda>(indicator, profs).
                              indicator_bullets indicator (patient_profile_of d) profs)
                         (filter (\<lambda>(indicator, profs).
                                    str_in indicator (lower (get_or (report d) [])))
                            kb)))"
  by (simp add: kb_context_items_def Let_def fold_indicator_items_eq)

text \<open>The joined text, written without \<^const>\<open>join\<close>: each further item follows a separator.\<close>

lemma join_Cons: "join sep (b # bs) = b @ concat (map (\<lambda>x. sep @ x) bs)"
  by (induction bs arbitrary: b) simp_all

lemma kb_context_items_Nil: "kb_context_items d [] = []"
  by (simp add: kb_context_items_def)

lemma get_knowledge_base_context_eq:
  "get_knowledge_base_context d kb
     = (case kb_context_items d kb of
          [] \<Rightarrow> []
        | b # bs \<Rightarrow> b @ concat (map (\<lambda>x. newline # x) bs))"
proof (cases "kb = []")
  case True
  then show ?thesis
    by (simp add: get_knowledge_base_context_def kb_context_items_Nil)
next
  case False
  then show ?thesis
    by (cases "kb_context_items d kb")
      (simp_all add: get_knowledge_base_context_def Let_def join_Cons)
qed

text \<open>
  C7, as the code has it. The bullets of \<^verbatim>\<open>_get_knowledge_base_context\<close> are, for each
  entry of the knowledge base whose indicator occurs in the lower-cased report text,
  taken in the order the knowledge base holds its entries: one bullet
  \<^verbatim>\<open>- {indicator} ({label}): {snippet}\<close> for each snippet of the matching profile key,
  labelled \<^verbatim>\<open>similar patient profile\<close>, then one for each snippet of the other profile
  keys of that same indicator, labelled \<^verbatim>\<open>other patient profile\<close>. The matching profile
  comes first inside each indicator only: all bullets of an earlier indicator stand
  before those of a later one. The list so combined is cut to its first 5 bullets, and
  the section is the first bullet followed by each further bullet after a newline.
\<close>

theorem knowledge_recall_matching_first_per_indicator:
  "kb_context_items d kb
     = take 5
         (concat
            (map (\<lambda>(indicator, profs).
                    map (bullet indicator ''similar patient profile'')
                      (case map_of profs (patient_profile_of d) of
                         Some insights \<Rightarrow> insights | None \<Rightarrow> [])
                    @ concat
                        (map (\<lambda>(profile, insights).
                                map (bullet indicator ''other patient profile'') insights)
                           (filter (\<lambda>(profile, insights). profile \<noteq> patient_profile_of d)
                              profs)))
               (filter (\<lambda>(indicator, profs).
                          str_in indicator (lower (get_or (report d) [])))
                  kb)))
   \<and> length (kb_context_items d kb) \<le> 5
   \<and> bullet indicator label insight = ''- '' @ indicator @ '' ('' @ label @ ''): '' @ insight
   \<and> get_knowledge_base_context d kb
       = (case kb_context_items d kb of
            [] \<Rightarrow> []
          | b # bs \<Rightarrow> b @ concat (map (\<lambda>x. newline # x) bs))"
proof (intro conjI)
  show closed: "kb_context_items d kb
     = take 5
         (concat
            (map (\<lambda>(indicator, profs).
                    map (bullet indicator ''similar patient profile'')
                      (case map_of profs (patient_profile_of d) of
                         Some insights \<Rightarrow> insights | None \<Rightarrow> [])
                    @ concat
                        (map (\<lambda>(profile, insights).
                                map (bullet indicator ''other patient profile'') insights)
                           (filter (\<lambda>(profile, insights). profile \<noteq> patient_profile_of d)
                              profs)))
               (filter (\<lambda>(indicator, profs).
                          str_in indicator (lower (get_or (report d) [])))
                  kb)))"
    by (simp add: kb_context_items_eq indicator_bullets_def)
  show "length (kb_context_items d kb) \<le> 5"
    by (simp add: kb_context_items_eq)
  show "bullet indicator label insight = ''- '' @ indicator @ '' ('' @ label @ ''): '' @ insight"
    by (simp add: bullet_def)
  show "get_knowledge_base_context d kb
       = (case kb_context_items d kb of
            [] \<Rightarrow> []
          | b # bs \<Rightarrow> b @ concat (map (\<lambda>x. newline # x) bs))"
    by (rule get_knowledge_base_context_eq)
qed

text \<open>
  A knowledge base that learned glucose before hemoglobin, with seven snippets for a
  request of profile 30-Female whose report names both: glucose comes first, inside each
  indicator the matching profile comes first, and the cut keeps the first five bullets.
\<close>

theorem knowledge_recall_matching_first_per_indicator_witness:
  "kb_context_items
     \<lparr>patient_name = Some ''A'', age = Some ''30'', gender = Some ''Female'',
      report = Some ''Hemoglobin: 14.2 g/dL, Glucose: 90 mg/dL''\<rparr>
     [(''glucose'', [(''40-Male'', [''g1'']), (''30-Female'', [''g2'', ''g3''])]),
      (''hemoglobin'', [(''30-Female'', [''h1'']), (''50-Male'', [''h2'', ''h3''])])]
   = [''- glucose (similar patient profile): g2'',
      ''- glucose (similar patient profile): g3'',
      ''- glucose (other patient profile): g1'',
      ''- hemoglobin (similar patient profile): h1'',
      ''- hemoglobin (other patient profile): h2'']
   \<and> get_knowledge_base_context
     \<lparr>patient_name = Some ''A'', age = Some ''30'', gender = Some ''Female'',
      report = Some ''Hemoglobin: 14.2 g/dL, Glucose: 90 mg/dL''\<rparr>
     [(''glucose'', [(''40-Male'', [''g1'']), (''30-Female'', [''g2'', ''g3''])]),
      (''hemoglobin'', [(''30-Female'', [''h1'']), (''50-Male'', [''h2'', ''h3''])])]
   = ''- glucose (similar patient profile): g2'' @ [newline]
     @ ''- glucose (similar patient profile): g3'' @ [newline]
     @ ''- glucose (other patient profile): g1'' @ [newline]
     @ ''- hemoglobin (similar patient profile): h1'' @ [newline]
     @ ''- hemoglobin (other patient profile): h2''"
proof -
  have glucose: "str_in ''glucose'' (lower ''Hemoglobin: 14.2 g/dL, Glucose: 90 mg/dL'')"
    by code_simp
  have hemoglobin: "str_in ''hemoglobin'' (lower ''Hemoglobin: 14.2 g/dL, Glucose: 90 mg/dL'')"
    by code_simp
  from glucose hemoglobin
    knowledge_recall_matching_first_per_indicator
      [of "\<lparr>patient_name = Some ''A'', age = Some ''30'', gender = Some ''Female'',
            report = Some ''Hemoglobin: 14.2 g/dL, Glucose: 90 mg/dL''\<rparr>"
          "[(''glucose'', [(''40-Male'', [''g1'']), (''30-Female'', [''g2'', ''g3''])]),
            (''hemoglobin'', [(''30-Female'', [''h1'']), (''50-Male'', [''h2'', ''h3''])])]"]
  show ?thesis
    by (simp add: patient_profile_of_def bullet_def)
qed

text \<open>
  C7 as stated fails on a knowledge base that two updates build from the empty one. A
  40-year-old man's report taught a hemoglobin snippet and a 30-year-old woman's report
  a glucose snippet. For a 30-year-old woman whose report names both, the bullet of the
  other profile (hemoglobin) stands before the bullet of the matching profile
  (glucose), so the combined list is not matching-profile-first. And where hemoglobin
  holds five snippets of other profiles, the cut to five bullets keeps those five and
  drops the only bullet of the matching profile.
\<close>

theorem knowledge_recall_other_before_similar_counterexample:
  "update_all
     [(DictData \<lparr>patient_name = Some ''B'', age = Some ''40'', gender = Some ''Male'',
                  report = Some ''Hemoglobin: 13.1 g/dL''\<rparr>, ''Hemoglobin is normal.''),
      (DictData \<lparr>patient_name = Some ''A'', age = Some ''30'', gender = Some ''Female'',
                  report = Some ''Glucose: 90 mg/dL''\<rparr>, ''Glucose is normal.'')]
     []
   = [(''hemoglobin'', [(''40-Male'', [''Hemoglobin is normal.''])]),
      (''glucose'', [(''30-Female'', [''Glucose is normal.''])])]
   \<and> kb_context_items
       \<lparr>patient_name = Some ''A'', age = Some ''30'', gender = Some ''Female'',
        report = Some ''Hemoglobin: 14.2 g/dL, Glucose: 90 mg/dL''\<rparr>
       [(''hemoglobin'', [(''40-Male'', [''Hemoglobin is normal.''])]),
        (''glucose'', [(''30-Female'', [''Glucose is normal.''])])]
     = [''- hemoglobin (other patient profile): Hemoglobin is normal.'',
        ''- glucose (similar patient profile): Glucose is normal.'']
   \<and> kb_context_items
       \<lparr>patient_name = Some ''A'', age = Some ''30'', gender = Some ''Female'',
        report = Some ''Hemoglobin: 14.2 g/dL, Glucose: 90 mg/dL''\<rparr>
       [(''hemoglobin'', [(''40-Male'', [''Hemoglobin is normal.''])]),
        (''glucose'', [(''30-Female'', [''Glucose is normal.''])])]
     \<noteq> [''- glucose (similar patient profile): Glucose is normal.'',
         ''- hemoglobin (other patient profile): Hemoglobin is normal.'']
   \<and> get_knowledge_base_context
       \<lparr>patient_name = Some ''A'', age = Some ''30'', gender = Some ''Female'',
        report = Some ''Hemoglobin: 14.2 g/dL, Glucose: 90 mg/dL''\<rparr>
       [(''hemoglobin'', [(''40-Male'', [''Hemoglobin is normal.''])]),
        (''glucose'', [(''30-Female'', [''Glucose is normal.''])])]
     = ''- hemoglobin (other patient profile): Hemoglobin is normal.'' @ [newline]
       @ ''- glucose (similar patient profile): Glucose is normal.''
   \<and> kb_context_items
       \<lparr>patient_name = Some ''A'', age = Some ''30'', gender = Some ''Female'',
        report = Some ''Hemoglobin: 14.2 g/dL, Glucose: 90 mg/dL''\<rparr>
       [(''hemoglobin'', [(''40-Male'', [''h1'', ''h2'', ''h3'']), (''50-Male'', [''h4'', ''h5''])]),
        (''glucose'', [(''30-Female'', [''g1''])])]
     = [''- hemoglobin (other patient profile): h1'',
        ''- hemoglobin (other patient profile): h2'',
        ''- hemoglobin (other patient profile): h3'',
        ''- hemoglobin (other patient profile): h4'',
        ''- hemoglobin (other patient profile): h5'']"
proof -
  have built: "update_all
     [(DictData \<lparr>patient_name = Some ''B'', age = Some ''40'', gender = Some ''Male'',
                  report = Some ''Hemoglobin: 13.1 g/dL''\<rparr>, ''Hemoglobin is normal.''),
      (DictData \<lparr>patient_name = Some ''A'', age = Some ''30'', gender = Some ''Female'',
                  report = Some ''Glucose: 90 mg/dL''\<rparr>, ''Glucose is normal.'')]
     []
   = [(''hemoglobin'', [(''40-Male'', [''Hemoglobin is normal.''])]),
      (''glucose'', [(''30-Female'', [''Glucose is normal.''])])]"
    by code_simp
  have items: "kb_context_items
       \<lparr>patient_name = Some ''A'', age = Some ''30'', gender = Some ''Female'',
        report = Some ''Hemoglobin: 14.2 g/dL, Glucose: 90 mg/dL''\<rparr>
       [(''hemoglobin'', [(''40-Male'', [''Hemoglobin is normal.''])]),
        (''glucose'', [(''30-Female'', [''Glucose is normal.''])])]
     = [''- hemoglobin (other patient profile): Hemoglobin is normal.'',
        ''- glucose (similar patient profile): Glucose is normal.'']"
    by code_simp
  have joined: "get_knowledge_base_context
       \<lparr>patient_name = Some ''A'', age = Some ''30'', gender = Some ''Female'',
        report = Some ''Hemoglobin: 14.2 g/dL, Glucose: 90 mg/dL''\<rparr>
       [(''hemoglobin'', [(''40-Male'', [''Hemoglobin is normal.''])]),
        (''glucose'', [(''30-Female'', [''Glucose is normal.''])])]
     = ''- hemoglobin (other patient profile): Hemoglobin is normal.'' @ [newline]
       @ ''- glucose (similar patient profile): Glucose is normal.''"
    by code_simp
  have cut: "kb_context_items
       \<lparr>patient_name = Some ''A'', age = Some ''30'', gender = Some ''Female'',
        report = Some ''Hemoglobin: 14.2 g/dL, Glucose: 90 mg/dL''\<rparr>
       [(''hemoglobin'', [(''40-Male'', [''h1'', ''h2'', ''h3'']), (''50-Male'', [''h4'', ''h5''])]),
        (''glucose'', [(''30-Female'', [''g1''])])]
     = [''- hemoglobin (other patient profile): h1'',
        ''- hemoglobin (other patient profile): h2'',
        ''- hemoglobin (other patient profile): h3'',
        ''- hemoglobin (other patient profile): h4'',
        ''- hemoglobin (other patient profile): h5'']"
    by code_simp
  have differs: "kb_context_items
       \<lparr>patient_name = Some ''A'', age = Some ''30'', gender = Some ''Female'',
        report = Some ''Hemoglobin: 14.2 g/dL, Glucose: 90 mg/dL''\<rparr>
       [(''hemoglobin'', [(''40-Male'', [''Hemoglobin is normal.''])]),
        (''glucose'', [(''30-Female'', [''Glucose is normal.''])])]
     \<noteq> [''- glucose (similar patient profile): Glucose is normal.'',
         ''- hemoglobin (other patient profile): Hemoglobin is normal.'']"
    by (simp add: items)
  from built items differs joined cut show ?thesis by blast
qed

end
